theory Spec2Isabelle
  imports Complex_Main "HOL-Library.Multiset" "HOL-Library.Char_ord" "HOL-Library.List_Lexorder"
begin

section \<open>Values exchanged with the judgment service\<close>

text \<open>
  Results of \<^verbatim>\<open>json.loads\<close>: the Python values a decoded JSON document can hold; an
  object lists each of its keys once. Python floats are idealised as reals throughout this
  development.
\<close>

datatype json =
    JNull
  | JBool bool
  | JInt int
  | JFloat real
  | JStr string
  | JArr "json list"
  | JObj "(string \<times> json) list"

text \<open>
  \<^verbatim>\<open>isinstance(x, (int, float))\<close> and \<^verbatim>\<open>isinstance(x, bool)\<close>. In Python \<^verbatim>\<open>bool\<close> is a
  subclass of \<^verbatim>\<open>int\<close>, so the first test also accepts \<^verbatim>\<open>True\<close> and \<^verbatim>\<open>False\<close>.
\<close>

fun isinstance_int_float :: "json \<Rightarrow> bool" where
  "isinstance_int_float (JBool b) = True"
| "isinstance_int_float (JInt i) = True"
| "isinstance_int_float (JFloat x) = True"
| "isinstance_int_float v = False"

fun isinstance_bool :: "json \<Rightarrow> bool" where
  "isinstance_bool (JBool b) = True"
| "isinstance_bool v = False"

text \<open>The number a value contributes to \<^verbatim>\<open>sum(...)\<close>; \<^verbatim>\<open>True\<close> counts 1, \<^verbatim>\<open>False\<close> 0.
  Only called on values that passed one of the two tests above.\<close>

fun num_value :: "json \<Rightarrow> real" where
  "num_value (JBool b) = (if b then 1 else 0)"
| "num_value (JInt i) = of_int i"
| "num_value (JFloat x) = x"
| "num_value v = 0"

text \<open>\<^verbatim>\<open>round(x, ndigits)\<close>: to the nearest multiple of \<open>10 ^ -ndigits\<close>, ties to even.\<close>

definition round_half_even :: "real \<Rightarrow> int" where
  "round_half_even x =
     (let f = \<lfloor>x\<rfloor>; d = x - of_int f
      in if d < 1 / 2 then f
         else if 1 / 2 < d then f + 1
         else if even f then f else f + 1)"

definition py_round :: "real \<Rightarrow> nat \<Rightarrow> real" where
  "py_round x ndigits = of_int (round_half_even (x * 10 ^ ndigits)) / 10 ^ ndigits"

section \<open>Evaluation Runner: summary statistics (llm\_judge.py)\<close>

record EvaluationCriterion =
  name :: string
  description :: string
  scoring_type :: string
  user_instructions :: string

record criterion_result =
  criterion :: EvaluationCriterion
  evaluation_steps :: "string list"
  score :: json
  reasoning :: json
  step_by_step_analysis :: json

record summary =
  total_criteria :: nat
  scale_criteria_count :: nat
  boolean_criteria_count :: nat
  average_scale_score :: "real option"
  boolean_pass_rate :: "real option"

text \<open>
  The two list comprehensions of \<^verbatim>\<open>evaluate_simulation\<close> (lines 301--308): they select by
  the run-time type of the score, not by the criterion's \<^verbatim>\<open>scoring_type\<close>.
\<close>

definition scale_scores :: "criterion_result list \<Rightarrow> json list" where
  "scale_scores rs = filter isinstance_int_float (map score rs)"

definition boolean_scores :: "criterion_result list \<Rightarrow> json list" where
  "boolean_scores rs = filter isinstance_bool (map score rs)"

text \<open>The summary dictionary of \<^verbatim>\<open>evaluate_simulation\<close> (lines 310--316); one result per
  criterion, so \<^verbatim>\<open>len(criteria)\<close> is the length of the result list.\<close>

definition evaluate_simulation_summary :: "criterion_result list \<Rightarrow> summary" where
  "evaluate_simulation_summary rs =
     (let ss = scale_scores rs; bs = boolean_scores rs
      in \<lparr> total_criteria = length rs,
           scale_criteria_count = length ss,
           boolean_criteria_count = length bs,
           average_scale_score =
             (if ss \<noteq> [] then Some (py_round (sum_list (map num_value ss) / real (length ss)) 2)
              else None),
           boolean_pass_rate =
             (if bs \<noteq> [] then Some (py_round (sum_list (map num_value bs) / real (length bs) * 100) 1)
              else None) \<rparr>)"

text \<open>A criterion with the result the judgment service scored it with.\<close>

definition scored :: "string \<Rightarrow> json \<Rightarrow> criterion_result" where
  "scored ty v =
     \<lparr> criterion = \<lparr> name = ''c'', description = ''d'', scoring_type = ty, user_instructions = [] \<rparr>,
       evaluation_steps = [''step''],
       score = v,
       reasoning = JStr ''r'',
       step_by_step_analysis = JStr ''a'' \<rparr>"

section \<open>Turn Tracer (tracing.py)\<close>

datatype MetricType =
    VAD_START | VAD_END | STT_START | STT_END
  | LLM_START | LLM_FIRST_TOKEN | LLM_END
  | TTS_START | TTS_FIRST_TOKEN | TTS_END
  | AUDIO_OUT_START | TURN_START | TURN_END

text \<open>
  A turn id is the string \<^verbatim>\<open>f"turn_{counter}_{millis}"\<close>; the two numbers determine it, so
  the model keeps the pair. Such a string is never empty, hence truthy whenever not \<^verbatim>\<open>None\<close>.
\<close>

datatype turn_id = TurnId int int

record MetricEvent =
  event_type :: MetricType
  ev_timestamp :: real
  ev_bot_name :: string
  metadata :: "(string \<times> json) list"
  ev_turn_id :: "turn_id option"

record LatencyMetrics =
  lm_turn_id :: turn_id
  lm_bot_name :: string
  vad_latency :: "real option"
  stt_latency :: "real option"
  llm_latency :: "real option"
  llm_first_token_latency :: "real option"
  tts_latency :: "real option"
  tts_first_token_latency :: "real option"
  end_to_end_latency :: "real option"
  turn_duration :: "real option"
  lm_first_llm_token_timestamp :: "real option"
  lm_first_spoken_token_timestamp :: "real option"

text \<open>
  The tracer's fields. \<^verbatim>\<open>turn_events\<close> is a dict of dicts; the outer one is iterated by
  \<^verbatim>\<open>get_summary\<close> in insertion order, so it is an association list; the inner one is only
  looked up, so it is a map. The lock, the logger and the log file path are left out.
\<close>

type_synonym turn_event_map = "MetricType \<rightharpoonup> real"

record SimulationTracer =
  bot_name :: string
  events :: "MetricEvent list"
  current_turn_id :: "turn_id option"
  turn_counter :: int
  first_llm_token_timestamp :: "real option"
  first_spoken_token_timestamp :: "real option"
  turn_events :: "(turn_id \<times> turn_event_map) list"

definition SimulationTracer_init :: "string \<Rightarrow> SimulationTracer" where
  "SimulationTracer_init b =
     \<lparr> bot_name = b, events = [], current_turn_id = None, turn_counter = 0,
       first_llm_token_timestamp = None, first_spoken_token_timestamp = None,
       turn_events = [] \<rparr>"

text \<open>\<^verbatim>\<open>int(x)\<close> on a float truncates towards zero.\<close>

definition py_int :: "real \<Rightarrow> int" where
  "py_int x = (if 0 \<le> x then \<lfloor>x\<rfloor> else \<lceil>x\<rceil>)"

text \<open>\<^verbatim>\<open>_get_turn_id\<close>; \<open>clock\<close> is what \<^verbatim>\<open>time.time()\<close> returns when it is called.\<close>

definition get_turn_id :: "real \<Rightarrow> SimulationTracer \<Rightarrow> turn_id \<times> SimulationTracer" where
  "get_turn_id clock s =
     (TurnId (turn_counter s + 1) (py_int (clock * 1000)),
      s\<lparr>turn_counter := turn_counter s + 1\<rparr>)"

text \<open>
  Lines 152--154 of \<^verbatim>\<open>_record_event\<close>: create the turn's dict at the end of
  \<^verbatim>\<open>turn_events\<close> if the turn is new, then store the timestamp under the event kind
  (a later event of the same kind overwrites).
\<close>

fun set_turn_event ::
  "turn_id \<Rightarrow> MetricType \<Rightarrow> real \<Rightarrow> (turn_id \<times> turn_event_map) list
     \<Rightarrow> (turn_id \<times> turn_event_map) list" where
  "set_turn_event tid et ts [] = [(tid, [et \<mapsto> ts])]"
| "set_turn_event tid et ts ((k, m) # kvs) =
     (if k = tid then (k, m(et \<mapsto> ts)) # kvs else (k, m) # set_turn_event tid et ts kvs)"

text \<open>Lines 141--165 of \<^verbatim>\<open>_record_event\<close>, once the turn id is known; \<open>now\<close> is the
  clock reading for the event.\<close>

definition record_event_at ::
  "turn_id \<Rightarrow> MetricType \<Rightarrow> (string \<times> json) list \<Rightarrow> real
     \<Rightarrow> SimulationTracer \<Rightarrow> SimulationTracer" where
  "record_event_at tid et md now s =
     (let event = \<lparr> event_type = et, ev_timestamp = now, ev_bot_name = bot_name s,
                     metadata = md, ev_turn_id = Some tid \<rparr>;
          s1 = s\<lparr> events := events s @ [event],
                  turn_events := set_turn_event tid et now (turn_events s) \<rparr>;
          s2 = (if et = LLM_FIRST_TOKEN \<and> first_llm_token_timestamp s1 = None
                then s1\<lparr>first_llm_token_timestamp := Some now\<rparr> else s1)
      in if et = TTS_FIRST_TOKEN \<and> first_spoken_token_timestamp s2 = None
         then s2\<lparr>first_spoken_token_timestamp := Some now\<rparr> else s2)"

text \<open>
  \<^verbatim>\<open>_record_event\<close>: the turn is the one given, else the current one, else a fresh one
  that becomes current (\<open>clock\<close> is read by \<^verbatim>\<open>_get_turn_id\<close> in that case only).
  The public \<^verbatim>\<open>record_*\<close> methods call it with their event kind and no turn id.
\<close>

definition record_event ::
  "MetricType \<Rightarrow> (string \<times> json) list \<Rightarrow> turn_id option \<Rightarrow> real \<Rightarrow> real
     \<Rightarrow> SimulationTracer \<Rightarrow> SimulationTracer" where
  "record_event et md tid clock now s =
     (case (case tid of None \<Rightarrow> current_turn_id s | Some t \<Rightarrow> Some t) of
        Some t \<Rightarrow> record_event_at t et md now s
      | None \<Rightarrow>
          (let (t, s1) = get_turn_id clock s
           in record_event_at t et md now (s1\<lparr>current_turn_id := Some t\<rparr>)))"

text \<open>\<^verbatim>\<open>start_turn\<close> (lines 167--172): a fresh id, made current, and its turn-start
  event. Nothing is done about a turn that is still open.\<close>

definition start_turn :: "real \<Rightarrow> real \<Rightarrow> SimulationTracer \<Rightarrow> turn_id \<times> SimulationTracer" where
  "start_turn clock now s =
     (let (tid, s1) = get_turn_id clock s;
          s2 = s1\<lparr>current_turn_id := Some tid\<rparr>
      in (tid, record_event TURN_START [] (Some tid) clock now s2))"

text \<open>
  \<^verbatim>\<open>_calculate_turn_metrics\<close> (lines 234--279): \<^verbatim>\<open>None\<close> for an unknown turn, else one
  difference per pair of kinds that are both in the turn's dict.
\<close>

definition calculate_turn_metrics :: "SimulationTracer \<Rightarrow> turn_id \<Rightarrow> LatencyMetrics option" where
  "calculate_turn_metrics s tid =
     (case map_of (turn_events s) tid of
        None \<Rightarrow> None
      | Some ev \<Rightarrow>
          Some \<lparr> lm_turn_id = tid, lm_bot_name = bot_name s,
            vad_latency =
              (if VAD_START \<in> dom ev \<and> VAD_END \<in> dom ev
               then Some (the (ev VAD_END) - the (ev VAD_START)) else None),
            stt_latency =
              (if STT_START \<in> dom ev \<and> STT_END \<in> dom ev
               then Some (the (ev STT_END) - the (ev STT_START)) else None),
            llm_latency =
              (if LLM_START \<in> dom ev \<and> LLM_END \<in> dom ev
               then Some (the (ev LLM_END) - the (ev LLM_START)) else None),
            llm_first_token_latency =
              (if LLM_START \<in> dom ev \<and> LLM_FIRST_TOKEN \<in> dom ev
               then Some (the (ev LLM_FIRST_TOKEN) - the (ev LLM_START)) else None),
            tts_latency =
              (if TTS_START \<in> dom ev \<and> TTS_END \<in> dom ev
               then Some (the (ev TTS_END) - the (ev TTS_START)) else None),
            tts_first_token_latency =
              (if TTS_START \<in> dom ev \<and> TTS_FIRST_TOKEN \<in> dom ev
               then Some (the (ev TTS_FIRST_TOKEN) - the (ev TTS_START)) else None),
            end_to_end_latency =
              (if VAD_START \<in> dom ev \<and> AUDIO_OUT_START \<in> dom ev
               then Some (the (ev AUDIO_OUT_START) - the (ev VAD_START)) else None),
            turn_duration =
              (if TURN_START \<in> dom ev \<and> TURN_END \<in> dom ev
               then Some (the (ev TURN_END) - the (ev TURN_START)) else None),
            lm_first_llm_token_timestamp =
              (if LLM_START \<in> dom ev \<and> LLM_FIRST_TOKEN \<in> dom ev
               then ev LLM_FIRST_TOKEN else None),
            lm_first_spoken_token_timestamp =
              (if TTS_START \<in> dom ev \<and> TTS_FIRST_TOKEN \<in> dom ev
               then ev TTS_FIRST_TOKEN else None) \<rparr>)"

text \<open>\<^verbatim>\<open>end_turn\<close> (lines 174--180); the metrics it computes are only logged.\<close>

definition end_turn :: "real \<Rightarrow> SimulationTracer \<Rightarrow> SimulationTracer" where
  "end_turn now s =
     (case current_turn_id s of
        None \<Rightarrow> s
      | Some tid \<Rightarrow> (record_event TURN_END [] (Some tid) now now s)\<lparr>current_turn_id := None\<rparr>)"

text \<open>
  \<^verbatim>\<open>get_summary\<close> (lines 281--316). A turn counts as completed when its dict has a
  turn-end. For one latency kind, line 294 and its four siblings compute
  \<^verbatim>\<open>sum(m.get(k, 0) or 0 for m in all_metrics) / len([m for m in all_metrics if m.get(k)])\<close>:
  the numerator adds every value that is there, the denominator counts the truthy ones, and
  \<^verbatim>\<open>0.0\<close> is not truthy. Dividing by a count of zero raises.
\<close>

datatype py_error = ZeroDivisionError

definition or_zero :: "real option \<Rightarrow> real" where
  "or_zero v = (case v of None \<Rightarrow> 0 | Some x \<Rightarrow> x)"

definition truthy_float :: "real option \<Rightarrow> bool" where
  "truthy_float v = (case v of None \<Rightarrow> False | Some x \<Rightarrow> x \<noteq> 0)"

definition average_latency ::
  "(LatencyMetrics \<Rightarrow> real option) \<Rightarrow> LatencyMetrics list \<Rightarrow> py_error + real" where
  "average_latency field ms =
     (let total = sum_list (map (\<lambda>m. or_zero (field m)) ms);
          n = length (filter (\<lambda>m. truthy_float (field m)) ms)
      in if n = 0 then Inl ZeroDivisionError else Inr (total / real n))"

record average_latencies =
  avg_vad :: "real option"
  avg_stt :: "real option"
  avg_llm :: "real option"
  avg_tts :: "real option"
  avg_e2e :: "real option"

record tracer_summary =
  sm_bot_name :: string
  total_events :: nat
  total_turns :: nat
  sm_first_llm_token_timestamp :: "real option"
  sm_first_spoken_token_timestamp :: "real option"
  sm_average_latencies :: average_latencies
  turn_metrics :: "LatencyMetrics list"

definition completed_turns :: "SimulationTracer \<Rightarrow> turn_id list" where
  "completed_turns s = map fst (filter (\<lambda>(tid, ev). TURN_END \<in> dom ev) (turn_events s))"

definition all_metrics :: "SimulationTracer \<Rightarrow> LatencyMetrics list" where
  "all_metrics s = List.map_filter (calculate_turn_metrics s) (completed_turns s)"

definition compute_averages :: "LatencyMetrics list \<Rightarrow> py_error + average_latencies" where
  "compute_averages ms =
     (if ms \<noteq> [] then
        (case average_latency vad_latency ms of Inl e \<Rightarrow> Inl e | Inr a_vad \<Rightarrow>
        (case average_latency stt_latency ms of Inl e \<Rightarrow> Inl e | Inr a_stt \<Rightarrow>
        (case average_latency llm_latency ms of Inl e \<Rightarrow> Inl e | Inr a_llm \<Rightarrow>
        (case average_latency tts_latency ms of Inl e \<Rightarrow> Inl e | Inr a_tts \<Rightarrow>
        (case average_latency end_to_end_latency ms of Inl e \<Rightarrow> Inl e | Inr a_e2e \<Rightarrow>
           Inr \<lparr> avg_vad = Some a_vad, avg_stt = Some a_stt, avg_llm = Some a_llm,
                 avg_tts = Some a_tts, avg_e2e = Some a_e2e \<rparr>)))))
      else Inr \<lparr> avg_vad = None, avg_stt = None, avg_llm = None, avg_tts = None, avg_e2e = None \<rparr>)"

definition get_summary :: "SimulationTracer \<Rightarrow> py_error + tracer_summary" where
  "get_summary s =
     (case compute_averages (all_metrics s) of
        Inl e \<Rightarrow> Inl e
      | Inr avgs \<Rightarrow>
          Inr \<lparr> sm_bot_name = bot_name s,
                total_events = length (events s),
                total_turns = length (completed_turns s),
                sm_first_llm_token_timestamp = first_llm_token_timestamp s,
                sm_first_spoken_token_timestamp = first_spoken_token_timestamp s,
                sm_average_latencies = avgs,
                turn_metrics = all_metrics s \<rparr>)"

text \<open>A sequence of calls made on a tracer by the pipeline callbacks, with the clock
  readings each call takes.\<close>

datatype tracer_call =
    StartTurn real real
  | RecordEvent MetricType real real
  | EndTurn real

fun tracer_step :: "SimulationTracer \<Rightarrow> tracer_call \<Rightarrow> SimulationTracer" where
  "tracer_step s (StartTurn clock now) = snd (start_turn clock now s)"
| "tracer_step s (RecordEvent et clock now) = record_event et [] None clock now s"
| "tracer_step s (EndTurn now) = end_turn now s"

definition tracer_run :: "tracer_call list \<Rightarrow> SimulationTracer \<Rightarrow> SimulationTracer" where
  "tracer_run calls s = foldl tracer_step s calls"

section \<open>Goal Monitor: the judgment call (goal\_detector.py)\<close>

text \<open>
  A conversation entry is a \<^verbatim>\<open>Dict[str, str]\<close>, read with \<^verbatim>\<open>.get\<close> and a default.
\<close>

type_synonym history_entry = "(string \<times> string) list"

definition get_default :: "('k \<times> 'v) list \<Rightarrow> 'k \<Rightarrow> 'v \<Rightarrow> 'v" where
  "get_default d k dflt = (case map_of d k of None \<Rightarrow> dflt | Some v \<Rightarrow> v)"

text \<open>\<^verbatim>\<open>xs[-10:]\<close>: the last ten elements, or all of them when there are fewer.\<close>

definition last10 :: "'a list \<Rightarrow> 'a list" where
  "last10 xs = drop (length xs - 10) xs"

text \<open>Lines 62--67 of \<^verbatim>\<open>check_goal_met\<close>: one line per entry with a non-empty message.\<close>

definition entry_line :: "history_entry \<Rightarrow> string" where
  "entry_line e =
     (let speaker = get_default e ''speaker'' ''Unknown'';
          message = get_default e ''message'' (get_default e ''text'' [])
      in if message \<noteq> [] then speaker @ '': '' @ message @ [CHR 0x0A] else [])"

definition conversation_text :: "history_entry list \<Rightarrow> string" where
  "conversation_text history = concat (map entry_line (last10 history))"

text \<open>
  The prompt is one of two fixed templates filled with the goal and the conversation text
  (lines 70--96); the model keeps which template and what fills it. A goal description that
  is \<^verbatim>\<open>None\<close> or empty selects the second template.
\<close>

datatype prompt = GoalPrompt string string | ConclusionPrompt string

definition build_prompt :: "history_entry list \<Rightarrow> string option \<Rightarrow> prompt" where
  "build_prompt history goal_description =
     (case goal_description of
        None \<Rightarrow> ConclusionPrompt (conversation_text history)
      | Some g \<Rightarrow>
          if g \<noteq> [] then GoalPrompt g (conversation_text history)
          else ConclusionPrompt (conversation_text history))"

text \<open>
  What \<^verbatim>\<open>client.models.generate_content\<close> does with a prompt: it raises (the string is
  \<^verbatim>\<open>str(e)\<close>), or it returns a response whose \<^verbatim>\<open>text\<close> is a string or \<^verbatim>\<open>None\<close>.
\<close>

datatype judge_reply = CallRaises string | Response "string option"

text \<open>
  The Python library functions the try block calls, as parameters: \<^verbatim>\<open>json.loads\<close>,
  \<^verbatim>\<open>float\<close> and \<^verbatim>\<open>str\<close> on a decoded value, and the text of the \<^verbatim>\<open>AttributeError\<close>
  that \<^verbatim>\<open>.get\<close> raises on a decoded value that is not a dict. \<open>Inl\<close> carries \<^verbatim>\<open>str(e)\<close>
  of the exception raised.
\<close>

record py_builtins =
  json_loads :: "string option \<Rightarrow> string + json"
  float_of :: "json \<Rightarrow> string + real"
  str_of :: "json \<Rightarrow> string"
  no_get_attribute :: "json \<Rightarrow> string"

text \<open>\<^verbatim>\<open>bool(x)\<close> on a decoded value: Python truthiness.\<close>

fun py_bool :: "json \<Rightarrow> bool" where
  "py_bool JNull = False"
| "py_bool (JBool b) = b"
| "py_bool (JInt i) = (i \<noteq> 0)"
| "py_bool (JFloat x) = (x \<noteq> 0)"
| "py_bool (JStr s) = (s \<noteq> [])"
| "py_bool (JArr xs) = (xs \<noteq> [])"
| "py_bool (JObj kvs) = (kvs \<noteq> [])"

record goal_result =
  goal_met :: bool
  confidence :: real
  gr_reasoning :: string

text \<open>The body of the try block (lines 99--116): \<open>Inl\<close> when something in it raises.\<close>

definition try_detect :: "py_builtins \<Rightarrow> judge_reply \<Rightarrow> string + goal_result" where
  "try_detect lib reply =
     (case reply of
        CallRaises e \<Rightarrow> Inl e
      | Response txt \<Rightarrow>
          (case json_loads lib txt of
             Inl e \<Rightarrow> Inl e
           | Inr (JObj kvs) \<Rightarrow>
               (case float_of lib (get_default kvs ''confidence'' (JFloat 0)) of
                  Inl e \<Rightarrow> Inl e
                | Inr c \<Rightarrow>
                    Inr \<lparr> goal_met = py_bool (get_default kvs ''goal_met'' (JBool False)),
                          confidence = c,
                          gr_reasoning = str_of lib (get_default kvs ''reasoning'' (JStr [])) \<rparr>)
           | Inr v \<Rightarrow> Inl (no_get_attribute lib v)))"

text \<open>\<^verbatim>\<open>check_goal_met\<close>: the prompt goes to the service, and the except clause (lines
  118--125) turns every failure of the try block into a result.\<close>

definition check_goal_met ::
  "py_builtins \<Rightarrow> (prompt \<Rightarrow> judge_reply) \<Rightarrow> history_entry list \<Rightarrow> string option \<Rightarrow> goal_result" where
  "check_goal_met lib judge conversation_history goal_description =
     (case try_detect lib (judge (build_prompt conversation_history goal_description)) of
        Inr r \<Rightarrow> r
      | Inl e \<Rightarrow>
          \<lparr> goal_met = False, confidence = 0, gr_reasoning = ''Error during detection: '' @ e \<rparr>)"



section \<open>Files shared between the processes\<close>

record transcript_entry =
  te_timestamp :: string
  te_speaker :: string
  te_type :: string
  te_text :: string

text \<open>A bot's transcript file; a start or end time that is missing reads as the empty
  string, the default of the merge.\<close>

record bot_transcript =
  bt_bot_name :: string
  bt_start_time :: string
  bt_end_time :: string
  bt_entries :: "transcript_entry list"

record stop_signal =
  reason :: string
  ss_timestamp :: "string option"
  ss_result :: "goal_result option"

record unified_entry =
  ue_timestamp :: string
  ue_bot :: string
  ue_speaker :: string
  ue_message :: string
  ue_type :: string

record unified_data =
  u_simulation_id :: string
  u_bot1_name :: string
  u_bot2_name :: string
  u_start_time :: string
  u_end_time :: string
  u_total_turns :: nat
  conversation :: "unified_entry list"

record simplified_message =
  sm_bot :: string
  sm_message :: string

record simplified_data =
  s_simulation_id :: string
  s_bot1_name :: string
  s_bot2_name :: string
  messages :: "simplified_message list"

text \<open>
  What a path of the shared directory can hold. \<open>Unreadable e\<close> is anything that exists
  but whose \<^verbatim>\<open>open\<close> or \<^verbatim>\<open>json.load\<close> raises, \<open>e\<close> being the text of the exception.
\<close>

datatype file_content =
    BotTranscript bot_transcript
  | StopSignal stop_signal
  | UnifiedTranscript unified_data
  | SimplifiedTranscript simplified_data
  | Unreadable string

type_synonym files = "string \<rightharpoonup> file_content"

section \<open>Goal Monitor: cadence and stop marker (simulation.py)\<close>

text \<open>
  The fields of \<^verbatim>\<open>OutputTranscriptTracker\<close>. \<open>has_goal_detector\<close> says that
  \<^verbatim>\<open>goal_detector\<close> is not \<^verbatim>\<open>None\<close>.
\<close>

record OutputTranscriptTracker =
  ot_bot_name :: string
  llm_text_buffer :: string
  has_goal_detector :: bool
  goal_description :: "string option"
  stop_signal_path :: "string option"
  ot_goal_met :: bool
  last_goal_check_turn :: int
  turn_count :: int

definition OutputTranscriptTracker_init ::
  "string \<Rightarrow> bool \<Rightarrow> string option \<Rightarrow> string option \<Rightarrow> OutputTranscriptTracker" where
  "OutputTranscriptTracker_init b det goal path =
     \<lparr> ot_bot_name = b, llm_text_buffer = [], has_goal_detector = det,
       goal_description = goal, stop_signal_path = path,
       ot_goal_met = False, last_goal_check_turn = 0, turn_count = 0 \<rparr>"

text \<open>What one process sees and changes: its tracker, the transcript list the tracker
  holds a reference to, and the files.\<close>

record world =
  tracker :: OutputTranscriptTracker
  transcript :: "transcript_entry list"
  fs :: files

text \<open>
  What the surroundings decide while one frame is processed: how the judgment service
  answers a prompt, the wall-clock string \<^verbatim>\<open>add_to_transcript\<close> reads, and whether creating
  the parent directory and writing the marker raises (the text of the \<^verbatim>\<open>OSError\<close>).
\<close>

text \<open>The marker write is taken as one step: it replaces the content of the path, or it
  raises and leaves the files as they were.\<close>

record frame_env =
  judge :: "prompt \<Rightarrow> judge_reply"
  now_str :: string
  write_error :: "string option"

datatype frame = LLMTextFrame string | TTSTextFrame string | OtherFrame

text \<open>What a frame makes the tracker do to the outside.\<close>

datatype action = JudgmentCall prompt | MarkerWritten string stop_signal

definition add_to_transcript ::
  "string \<Rightarrow> string \<Rightarrow> string \<Rightarrow> string \<Rightarrow> transcript_entry list \<Rightarrow> transcript_entry list" where
  "add_to_transcript now speaker text message_type tr =
     tr @ [\<lparr> te_timestamp = now, te_speaker = speaker, te_type = message_type, te_text = text \<rparr>]"

text \<open>
  Lines 295--321: the goal check, run when the cadence test of line 294 passed; the history
  handed to the detector is rebuilt from the last ten transcript entries. The
  assignment to \<^verbatim>\<open>last_goal_check_turn\<close> is the last statement of the try block, so an
  exception raised by the marker write skips it.
\<close>

definition recent_history :: "transcript_entry list \<Rightarrow> history_entry list" where
  "recent_history tr = map (\<lambda>e. [(''speaker'', te_speaker e), (''message'', te_text e)]) (last10 tr)"

text \<open>Lines 304--307: the detector's result on the recent history.\<close>

definition goal_judgment :: "py_builtins \<Rightarrow> frame_env \<Rightarrow> world \<Rightarrow> goal_result" where
  "goal_judgment lib env w =
     check_goal_met lib (judge env) (recent_history (transcript w)) (goal_description (tracker w))"

definition goal_check :: "py_builtins \<Rightarrow> frame_env \<Rightarrow> world \<Rightarrow> world \<times> action list" where
  "goal_check lib env w =
     (let t = tracker w;
          call = JudgmentCall (build_prompt (recent_history (transcript w)) (goal_description t));
          result = goal_judgment lib env w
      in if goal_met result \<and> 7 / 10 < confidence result then
           (let t1 = t\<lparr>ot_goal_met := True\<rparr>
            in case stop_signal_path t1 of
                 None \<Rightarrow> (w\<lparr>tracker := t1\<lparr>last_goal_check_turn := turn_count t1\<rparr>\<rparr>, [call])
               | Some p \<Rightarrow>
                   (case write_error env of
                      Some e \<Rightarrow> (w\<lparr>tracker := t1\<rparr>, [call])
                    | None \<Rightarrow>
                        (let marker = \<lparr> reason = ''goal_met'', ss_timestamp = None,
                                         ss_result = Some result \<rparr>
                         in (w\<lparr> tracker := t1\<lparr>last_goal_check_turn := turn_count t1\<rparr>,
                                 fs := (fs w)(p \<mapsto> StopSignal marker) \<rparr>,
                             [call, MarkerWritten p marker]))))
         else (w\<lparr>tracker := t\<lparr>last_goal_check_turn := turn_count t\<rparr>\<rparr>, [call]))"

text \<open>
  \<^verbatim>\<open>OutputTranscriptTracker.process_frame\<close> (lines 263--323). The calls on the tracer in
  both branches touch neither the tracker's fields, the transcript nor the files, and are
  left out.
\<close>

definition process_frame :: "py_builtins \<Rightarrow> frame_env \<Rightarrow> frame \<Rightarrow> world \<Rightarrow> world \<times> action list" where
  "process_frame lib env fr w =
     (case fr of
        LLMTextFrame text \<Rightarrow>
          (if text \<noteq> []
           then (w\<lparr>tracker := (tracker w)\<lparr>llm_text_buffer := llm_text_buffer (tracker w) @ text\<rparr>\<rparr>, [])
           else (w, []))
      | TTSTextFrame text \<Rightarrow>
          (if text \<noteq> [] then
             (let t = tracker w;
                  w1 = w\<lparr> transcript := add_to_transcript (now_str env) (ot_bot_name t) text ''response''
                                            (transcript w),
                          tracker := t\<lparr>turn_count := turn_count t + 1\<rparr> \<rparr>
              in if has_goal_detector (tracker w1)
                    \<and> last_goal_check_turn (tracker w1) + 3 \<le> turn_count (tracker w1)
                 then goal_check lib env w1
                 else (w1, []))
           else (w, []))
      | OtherFrame \<Rightarrow> (w, []))"

text \<open>A run: the frames the pipeline delivers, each with its surroundings; the actions of
  each frame are tagged with the turn count the tracker had reached.\<close>

fun run_frames ::
  "py_builtins \<Rightarrow> (frame_env \<times> frame) list \<Rightarrow> world \<Rightarrow> world \<times> (int \<times> action) list" where
  "run_frames lib [] w = (w, [])"
| "run_frames lib ((env, fr) # rest) w =
     (let (w1, acts) = process_frame lib env fr w;
          (w2, later) = run_frames lib rest w1
      in (w2, map (\<lambda>a. (turn_count (tracker w1), a)) acts @ later))"

fun is_judgment_call :: "action \<Rightarrow> bool" where
  "is_judgment_call (JudgmentCall p) = True"
| "is_judgment_call (MarkerWritten p m) = False"

fun markers :: "(int \<times> action) list \<Rightarrow> stop_signal list" where
  "markers [] = []"
| "markers ((n, MarkerWritten p m) # rest) = m # markers rest"
| "markers ((n, JudgmentCall p) # rest) = markers rest"

text \<open>The turn counts at which a run issued a judgment call, in order.\<close>

definition check_turns :: "(int \<times> action) list \<Rightarrow> int list" where
  "check_turns trace = map fst (filter (\<lambda>(n, a). is_judgment_call a) trace)"

section \<open>Transcript Merger (app.py)\<close>

text \<open>
  The entries of \<^verbatim>\<open>st.session_state\<close> that \<^verbatim>\<open>generate_unified_transcript\<close> reads; a path
  is falsy when it is \<^verbatim>\<open>None\<close> or the empty string.
\<close>

record session_state =
  bot1_transcript_json :: "string option"
  bot2_transcript_json :: "string option"
  unified_transcript_path :: "string option"
  simulation_id :: string

definition falsy_path :: "string option \<Rightarrow> bool" where
  "falsy_path p = (case p of None \<Rightarrow> True | Some q \<Rightarrow> q = [])"

text \<open>
  Opening and decoding a source (lines 570--574). A file of this system that is not a bot
  transcript decodes to a dict without \<^verbatim>\<open>bot_name\<close>, and the first subscript raises
  \<^verbatim>\<open>KeyError('bot_name')\<close> before anything is written; a decoded transcript whose entries
  lack a key raises in the same place and is an \<open>Unreadable\<close> too.
\<close>

definition key_error_bot_name :: string where
  "key_error_bot_name = [CHR 0x27] @ ''bot_name'' @ [CHR 0x27]"

fun load_bot_transcript :: "file_content \<Rightarrow> string + bot_transcript" where
  "load_bot_transcript (BotTranscript t) = Inr t"
| "load_bot_transcript (Unreadable e) = Inl e"
| "load_bot_transcript c = Inl key_error_bot_name"

text \<open>Lines 577--595: the entries of one source, tagged with its bot's name.\<close>

definition tag_entries :: "bot_transcript \<Rightarrow> unified_entry list" where
  "tag_entries t =
     map (\<lambda>e. \<lparr> ue_timestamp = te_timestamp e, ue_bot = bt_bot_name t, ue_speaker = te_speaker e,
                ue_message = te_text e, ue_type = te_type e \<rparr>)
         (bt_entries t)"

text \<open>
  Lines 577--598: both sources one after the other, then \<^verbatim>\<open>list.sort\<close> with the timestamp
  string as key. \<^verbatim>\<open>list.sort\<close> is a stable ascending sort, as \<open>sort_key\<close> is; Python
  compares strings by code point, as the order on \<open>string\<close> does.
\<close>

definition all_entries :: "bot_transcript \<Rightarrow> bot_transcript \<Rightarrow> unified_entry list" where
  "all_entries b1 b2 = sort_key ue_timestamp (tag_entries b1 @ tag_entries b2)"

text \<open>Lines 601--609.\<close>

definition make_unified :: "string \<Rightarrow> bot_transcript \<Rightarrow> bot_transcript \<Rightarrow> unified_data" where
  "make_unified sim_id b1 b2 =
     \<lparr> u_simulation_id = sim_id,
       u_bot1_name = bt_bot_name b1,
       u_bot2_name = bt_bot_name b2,
       u_start_time = min (bt_start_time b1) (bt_start_time b2),
       u_end_time = max (bt_end_time b1) (bt_end_time b2),
       u_total_turns = length (all_entries b1 b2),
       conversation = all_entries b1 b2 \<rparr>"

text \<open>Lines 619--635: the loop body for one merged entry; at most one message.\<close>

definition simplify_entry :: "string \<Rightarrow> string \<Rightarrow> unified_entry \<Rightarrow> simplified_message list" where
  "simplify_entry bot1 bot2 e =
     (if ue_type e \<in> set [''transcription'', ''response'', ''message''] then
        (if ue_bot e = bot1 then [\<lparr> sm_bot = ''Bot 1'', sm_message = ue_message e \<rparr>]
         else if ue_bot e = bot2 then [\<lparr> sm_bot = ''Bot 2'', sm_message = ue_message e \<rparr>]
         else [])
      else [])"

definition make_simplified :: "string \<Rightarrow> bot_transcript \<Rightarrow> bot_transcript \<Rightarrow> simplified_data" where
  "make_simplified sim_id b1 b2 =
     \<lparr> s_simulation_id = sim_id,
       s_bot1_name = bt_bot_name b1,
       s_bot2_name = bt_bot_name b2,
       messages = concat (map (simplify_entry (bt_bot_name b1) (bt_bot_name b2)) (all_entries b1 b2)) \<rparr>"

text \<open>
  \<^verbatim>\<open>generate_unified_transcript\<close> (lines 558--649). \<open>sibling\<close> is
  \<^verbatim>\<open>Path(p).parent / name\<close> of pathlib; \<open>unwritable\<close> gives, for a path that cannot be
  opened for writing, the text of the exception. The result is the returned pair and the
  files afterwards. Every exception ends in the handler of line 648.
\<close>

definition generate_unified_transcript ::
  "(string \<Rightarrow> string \<Rightarrow> string) \<Rightarrow> (string \<rightharpoonup> string) \<Rightarrow> session_state \<Rightarrow> files
     \<Rightarrow> (bool \<times> string) \<times> files" where
  "generate_unified_transcript sibling unwritable st files =
     (if falsy_path (bot1_transcript_json st) \<or> falsy_path (bot2_transcript_json st)
         \<or> falsy_path (unified_transcript_path st)
      then ((False, ''Missing transcript paths''), files)
      else
        (let bot1_path = the (bot1_transcript_json st);
             bot2_path = the (bot2_transcript_json st);
             unified_path = the (unified_transcript_path st)
         in if files bot1_path = None \<or> files bot2_path = None
            then ((False, ''Bot transcript files not found yet''), files)
            else
              (case load_bot_transcript (the (files bot1_path)) of
                 Inl e \<Rightarrow> ((False, ''Error generating unified transcript: '' @ e), files)
               | Inr bot1_data \<Rightarrow>
              (case load_bot_transcript (the (files bot2_path)) of
                 Inl e \<Rightarrow> ((False, ''Error generating unified transcript: '' @ e), files)
               | Inr bot2_data \<Rightarrow>
              (case unwritable unified_path of
                 Some e \<Rightarrow> ((False, ''Error generating unified transcript: '' @ e), files)
               | None \<Rightarrow>
              (let files1 = files(unified_path \<mapsto>
                              UnifiedTranscript (make_unified (simulation_id st) bot1_data bot2_data));
                   simplified_path = sibling unified_path ''simplified_transcript.json''
               in case unwritable simplified_path of
                    Some e \<Rightarrow> ((False, ''Error generating unified transcript: '' @ e), files1)
                  | None \<Rightarrow>
                      ((True, ''Unified transcript saved to '' @ unified_path
                              @ ''. Simplified transcript saved to '' @ simplified_path),
                       files1(simplified_path \<mapsto>
                              SimplifiedTranscript (make_simplified (simulation_id st) bot1_data bot2_data)))))))))"

section \<open>The specification's latency rule\<close>

text \<open>
  The rule in the specification's words: for a turn and a pair of event kinds, the latency
  is the end kind's timestamp minus the start kind's when both are present in the turn,
  and absent otherwise.
\<close>

definition spec_latency :: "turn_event_map \<Rightarrow> MetricType \<Rightarrow> MetricType \<Rightarrow> real option" where
  "spec_latency ev start_kind end_kind =
     (case (ev start_kind, ev end_kind) of (Some a, Some b) \<Rightarrow> Some (b - a) | _ \<Rightarrow> None)"

section \<open>Concrete inputs\<close>

text \<open>One turn with generate-start at 10 and generate-end at 13.\<close>

definition generate_turn :: SimulationTracer where
  "generate_turn =
     tracer_run [StartTurn 9 9, RecordEvent LLM_START 10 10, RecordEvent LLM_END 13 13]
       (SimulationTracer_init ''Ira'')"

text \<open>A turn is started while the first one is still open, as \<^verbatim>\<open>on_speech_started\<close> does.\<close>

definition two_starts :: SimulationTracer where
  "two_starts =
     tracer_run [StartTurn 1 1, RecordEvent VAD_START 2 2, StartTurn 3 3]
       (SimulationTracer_init ''Ira'')"

text \<open>
  Two completed turns. In the first, speech start and speech end carry the same clock
  reading, so its speech latency is 0.0; the second has all five averaged latencies, the
  speech latency being 4.0.
\<close>

definition zero_vad :: SimulationTracer where
  "zero_vad =
     tracer_run
       [StartTurn 5 5, RecordEvent VAD_START 5 5, RecordEvent VAD_END 5 5, EndTurn 6,
        StartTurn 10 10, RecordEvent VAD_START 10 10, RecordEvent STT_START 10 10,
        RecordEvent VAD_END 14 14, RecordEvent STT_END 15 15, RecordEvent LLM_START 15 15,
        RecordEvent LLM_END 17 17, RecordEvent TTS_START 17 17,
        RecordEvent AUDIO_OUT_START 18 18, RecordEvent TTS_END 20 20, EndTurn 21]
       (SimulationTracer_init ''Ira'')"

text \<open>One completed turn in which no speech event was recorded.\<close>

definition bare_turn :: SimulationTracer where
  "bare_turn = tracer_run [StartTurn 1 1, EndTurn 2] (SimulationTracer_init ''Ira'')"

text \<open>
  A judgment service and the library under test: four canned response texts and what they
  decode to; any other text does not parse.
\<close>

definition decode0 :: "string option \<Rightarrow> string + json" where
  "decode0 txt =
     (case txt of
        None \<Rightarrow> Inl ''the JSON object must be str, bytes or bytearray, not NoneType''
      | Some t \<Rightarrow>
          if t = ''met 0.9'' then
            Inr (JObj [(''goal_met'', JBool True), (''confidence'', JFloat (9 / 10)),
                       (''reasoning'', JStr ''table booked'')])
          else if t = ''met 0.95'' then
            Inr (JObj [(''goal_met'', JBool True), (''confidence'', JFloat (95 / 100)),
                       (''reasoning'', JStr ''goodbyes exchanged'')])
          else if t = ''met 0.70'' then
            Inr (JObj [(''goal_met'', JBool True), (''confidence'', JFloat (7 / 10)),
                       (''reasoning'', JStr ''probably'')])
          else if t = ''not met'' then
            Inr (JObj [(''goal_met'', JBool False), (''confidence'', JFloat (9 / 10)),
                       (''reasoning'', JStr ''still talking'')])
          else Inl ''Expecting value: line 1 column 1 (char 0)'')"

fun float0 :: "json \<Rightarrow> string + real" where
  "float0 (JFloat x) = Inr x"
| "float0 (JInt i) = Inr (of_int i)"
| "float0 (JBool b) = Inr (if b then 1 else 0)"
| "float0 v = Inl ''float() argument must be a string or a real number''"

fun str0 :: "json \<Rightarrow> string" where
  "str0 (JStr s) = s"
| "str0 v = ''?''"

definition lib0 :: py_builtins where
  "lib0 = \<lparr> json_loads = decode0, float_of = float0, str_of = str0,
            no_get_attribute = (\<lambda>v. ''object has no attribute get'') \<rparr>"

text \<open>Surroundings in which the service answers with a given text, and the same with a
  marker write that fails.\<close>

definition answers :: "string \<Rightarrow> frame_env" where
  "answers txt =
     \<lparr> judge = (\<lambda>p. Response (Some txt)), now_str = ''2026-01-01 10:00:00'', write_error = None \<rparr>"

definition answers_write_fails :: "string \<Rightarrow> frame_env" where
  "answers_write_fails txt = (answers txt)\<lparr>write_error := Some ''Permission denied''\<rparr>"

text \<open>A bot at start-up, with a goal detector and its stop-signal path.\<close>

definition world0 :: world where
  "world0 =
     \<lparr> tracker = OutputTranscriptTracker_init ''Ira'' True (Some ''book a table'')
                   (Some ''bot1_stop_signal.json''),
       transcript = [], fs = Map.empty \<rparr>"

text \<open>Four spoken turns; the third check finds the goal met but its marker write fails.\<close>

definition failed_write_run :: "world \<times> (int \<times> action) list" where
  "failed_write_run =
     run_frames lib0
       [(answers ''not met'', TTSTextFrame ''a''), (answers ''not met'', TTSTextFrame ''b''),
        (answers_write_fails ''met 0.9'', TTSTextFrame ''c''),
        (answers ''met 0.9'', TTSTextFrame ''d'')]
       world0"





text \<open>A bot two turns after start-up, about to speak its third turn.\<close>

definition world2 :: world where
  "world2 =
     fst (run_frames lib0
            [(answers ''not met'', TTSTextFrame ''a''), (answers ''not met'', TTSTextFrame ''b'')]
            world0)"

text \<open>
  A source transcript is unavailable, in the specification's words, when it is missing
  (no path, or no file at the path) or unreadable (the file is there but loading it
  raises).
\<close>

definition source_unavailable :: "files \<Rightarrow> string option \<Rightarrow> bool" where
  "source_unavailable files path =
     (case path of
        None \<Rightarrow> True
      | Some p \<Rightarrow> (case files p of None \<Rightarrow> True | Some c \<Rightarrow> isl (load_bot_transcript c)))"

text \<open>Two bots' transcripts: Ira spoke at seconds 1 and 3, Chetan at second 2.\<close>

definition ira :: bot_transcript where
  "ira =
     \<lparr> bt_bot_name = ''Ira'', bt_start_time = ''2026-01-01 10:00:00'',
       bt_end_time = ''2026-01-01 10:00:09'',
       bt_entries =
         [\<lparr> te_timestamp = ''2026-01-01 10:00:01'', te_speaker = ''Ira'', te_type = ''response'',
             te_text = ''Hello'' \<rparr>,
          \<lparr> te_timestamp = ''2026-01-01 10:00:03'', te_speaker = ''Ira'', te_type = ''response'',
             te_text = ''Bye'' \<rparr>] \<rparr>"

definition chetan :: bot_transcript where
  "chetan =
     \<lparr> bt_bot_name = ''Chetan'', bt_start_time = ''2026-01-01 10:00:00'',
       bt_end_time = ''2026-01-01 10:00:08'',
       bt_entries =
         [\<lparr> te_timestamp = ''2026-01-01 10:00:02'', te_speaker = ''Chetan'',
             te_type = ''response'', te_text = ''Hi'' \<rparr>] \<rparr>"

text \<open>The session of the control panel, with all output in one directory.\<close>

definition session0 :: session_state where
  "session0 =
     \<lparr> bot1_transcript_json = Some ''bot1_Ira_transcript.json'',
       bot2_transcript_json = Some ''bot2_Chetan_transcript.json'',
       unified_transcript_path = Some ''unified_transcript.json'',
       simulation_id = ''20260101_100000'' \<rparr>"

definition sibling0 :: "string \<Rightarrow> string \<Rightarrow> string" where
  "sibling0 p file_name = file_name"

text \<open>The shared directory with only the second, and with only the first, transcript.\<close>

definition only_bot2 :: files where
  "only_bot2 = [''bot2_Chetan_transcript.json'' \<mapsto> BotTranscript chetan]"

definition only_bot1 :: files where
  "only_bot1 = [''bot1_Ira_transcript.json'' \<mapsto> BotTranscript ira]"

section \<open>Properties\<close>

subsection \<open>Evaluation summary\<close>

lemmas summary_defs =
  evaluate_simulation_summary_def scale_scores_def boolean_scores_def scored_def
  py_round_def round_half_even_def

text \<open>
  Claim C1. The summary's average scale score should be the mean of the scale-type scores
  and be absent when there are none. On the claim's own two inputs the code gives something
  else: for the results scale 8, scale 6, boolean true it counts three scale scores and
  averages them to 5.0 (not 7.0), and for boolean true, boolean false it reports an average
  scale score of 0.5 (not absent), because the boolean scores pass the test
  \<^verbatim>\<open>isinstance(score, (int, float))\<close>. The boolean pass rates are 100.0 and 50.0, as claimed.
\<close>

theorem summary_counts_booleans_as_scale_scores:
  "evaluate_simulation_summary
     [scored ''scale'' (JInt 8), scored ''scale'' (JInt 6), scored ''boolean'' (JBool True)]
   = \<lparr> total_criteria = 3, scale_criteria_count = 3, boolean_criteria_count = 1,
       average_scale_score = Some 5, boolean_pass_rate = Some 100 \<rparr>
   \<and> evaluate_simulation_summary
       [scored ''boolean'' (JBool True), scored ''boolean'' (JBool False)]
     = \<lparr> total_criteria = 2, scale_criteria_count = 2, boolean_criteria_count = 2,
         average_scale_score = Some (1 / 2), boolean_pass_rate = Some 50 \<rparr>"
  by (simp add: summary_defs)

text \<open>Without a boolean result in the list the average is the claimed one.\<close>

lemma summary_scale_only:
  "evaluate_simulation_summary [scored ''scale'' (JInt 8), scored ''scale'' (JInt 6)]
   = \<lparr> total_criteria = 2, scale_criteria_count = 2, boolean_criteria_count = 0,
       average_scale_score = Some 7, boolean_pass_rate = None \<rparr>"
  by (simp add: summary_defs)

text \<open>The pass rate is, for every list of results, the percentage of true among the
  boolean scores.\<close>

lemma sum_bool_scores:
  "sum_list (map num_value (filter isinstance_bool vs))
     = real (length (filter (\<lambda>v. v = JBool True) vs))"
proof (induction vs)
  case Nil
  then show ?case by simp
next
  case (Cons v vs)
  then show ?case by (cases v) auto
qed

lemma boolean_pass_rate_is_percentage_of_true:
  "boolean_pass_rate (evaluate_simulation_summary rs)
     = (if boolean_scores rs = [] then None
        else Some (py_round (real (length (filter (\<lambda>v. v = JBool True) (map score rs)))
                             / real (length (boolean_scores rs)) * 100) 1))"
  by (simp add: evaluate_simulation_summary_def Let_def boolean_scores_def sum_bool_scores)

subsection \<open>Turn Tracer\<close>

lemmas tracer_defs =
  tracer_run_def start_turn_def get_turn_id_def record_event_def record_event_at_def
  end_turn_def SimulationTracer_init_def py_int_def

lemmas summary_of_tracer_defs =
  completed_turns_def all_metrics_def calculate_turn_metrics_def List.map_filter_def
  get_summary_def compute_averages_def average_latency_def truthy_float_def or_zero_def

lemma spec_latency_dom:
  "spec_latency ev a b =
     (if a \<in> dom ev \<and> b \<in> dom ev then Some (the (ev b) - the (ev a)) else None)"
  by (auto simp: spec_latency_def dom_def split: option.splits)

text \<open>
  Claim C7. For a turn the tracer knows, \<^verbatim>\<open>_calculate_turn_metrics\<close> returns metrics in
  which each of the eight defined latencies is the end kind's timestamp minus the start
  kind's when both kinds are present in the turn, and the absent value otherwise.
\<close>

theorem calculate_turn_metrics_follows_rule:
  assumes "map_of (turn_events s) tid = Some ev"
  shows "map_option vad_latency (calculate_turn_metrics s tid)
           = Some (spec_latency ev VAD_START VAD_END)
       \<and> map_option stt_latency (calculate_turn_metrics s tid)
           = Some (spec_latency ev STT_START STT_END)
       \<and> map_option llm_latency (calculate_turn_metrics s tid)
           = Some (spec_latency ev LLM_START LLM_END)
       \<and> map_option llm_first_token_latency (calculate_turn_metrics s tid)
           = Some (spec_latency ev LLM_START LLM_FIRST_TOKEN)
       \<and> map_option tts_latency (calculate_turn_metrics s tid)
           = Some (spec_latency ev TTS_START TTS_END)
       \<and> map_option tts_first_token_latency (calculate_turn_metrics s tid)
           = Some (spec_latency ev TTS_START TTS_FIRST_TOKEN)
       \<and> map_option end_to_end_latency (calculate_turn_metrics s tid)
           = Some (spec_latency ev VAD_START AUDIO_OUT_START)
       \<and> map_option turn_duration (calculate_turn_metrics s tid)
           = Some (spec_latency ev TURN_START TURN_END)"
  using assms by (simp add: calculate_turn_metrics_def spec_latency_dom)

lemma generate_turn_events:
  "map_of (turn_events generate_turn) (TurnId 1 9000)
     = Some [TURN_START \<mapsto> 9, LLM_START \<mapsto> 10, LLM_END \<mapsto> 13]"
  by (simp add: generate_turn_def tracer_defs)

text \<open>The specification's example: generate-start at 10 and generate-end at 13 give a
  generate latency of 3; the speech latency of the same turn, whose events are missing, is
  absent.\<close>

theorem calculate_turn_metrics_follows_rule_witness:
  "map_of (turn_events generate_turn) (TurnId 1 9000)
     = Some [TURN_START \<mapsto> 9, LLM_START \<mapsto> 10, LLM_END \<mapsto> 13]
   \<and> map_option llm_latency (calculate_turn_metrics generate_turn (TurnId 1 9000)) = Some (Some 3)
   \<and> map_option vad_latency (calculate_turn_metrics generate_turn (TurnId 1 9000)) = Some None"
  using calculate_turn_metrics_follows_rule [OF generate_turn_events]
  by (simp add: generate_turn_events spec_latency_def)

text \<open>
  Claim C2. Starting a turn while one is open should first record the open turn's
  turn-end. The code does not: after start, speech-start, start, the event log holds two
  turn-starts and no turn-end, the first turn's events hold no turn-end, the second turn is
  current, and when the run later ends the current turn only the second turn counts as
  completed, so the first never reaches the summary.
\<close>

theorem start_turn_leaves_open_turn_unended:
  "current_turn_id
       (tracer_run [StartTurn 1 1, RecordEvent VAD_START 2 2] (SimulationTracer_init ''Ira''))
     = Some (TurnId 1 1000)
   \<and> current_turn_id two_starts = Some (TurnId 2 3000)
   \<and> map (\<lambda>e. (event_type e, ev_turn_id e)) (events two_starts)
       = [(TURN_START, Some (TurnId 1 1000)), (VAD_START, Some (TurnId 1 1000)),
          (TURN_START, Some (TurnId 2 3000))]
   \<and> map_of (turn_events two_starts) (TurnId 1 1000) = Some [TURN_START \<mapsto> 1, VAD_START \<mapsto> 2]
   \<and> completed_turns (end_turn 4 two_starts) = [TurnId 2 3000]"
  by (simp add: two_starts_def tracer_defs completed_turns_def)

text \<open>In every state, open turn or not, starting a turn adds one event to the log, the
  new turn's turn-start.\<close>

lemma start_turn_events:
  "events (snd (start_turn clock now s))
     = events s @ [\<lparr> event_type = TURN_START, ev_timestamp = now, ev_bot_name = bot_name s,
                      metadata = [], ev_turn_id = Some (fst (start_turn clock now s)) \<rparr>]"
  by (simp add: start_turn_def get_turn_id_def record_event_def record_event_at_def)

text \<open>Where no present value is 0.0 and at least one turn has the metric, the code's
  mean is the mean over the turns in which the metric is present.\<close>

lemma sum_or_zero_present:
  "sum_list (map (\<lambda>m. or_zero (field m)) ms) = sum_list (List.map_filter field ms)"
  by (induction ms) (auto simp: List.map_filter_simps or_zero_def split: option.splits)

lemma count_truthy_present:
  assumes "\<forall>m \<in> set ms. field m \<noteq> Some 0"
  shows "length (filter (\<lambda>m. truthy_float (field m)) ms) = length (List.map_filter field ms)"
  using assms
  by (induction ms) (auto simp: List.map_filter_simps truthy_float_def split: option.splits)

lemma average_latency_of_nonzero:
  assumes "\<forall>m \<in> set ms. field m \<noteq> Some 0" and "List.map_filter field ms \<noteq> []"
  shows "average_latency field ms
         = Inr (sum_list (List.map_filter field ms) / real (length (List.map_filter field ms)))"
  using assms by (simp add: average_latency_def sum_or_zero_present count_truthy_present)

text \<open>The specification's example: latencies 2.0, absent, 4.0 have mean 3.0.\<close>

lemma average_latency_spec_example:
  assumes "map field ms = [Some 2, None, Some 4]"
  shows "average_latency field ms = Inr 3"
proof -
  obtain a b c where ms: "ms = [a, b, c]" "field a = Some 2" "field b = None" "field c = Some 4"
    using assms by (auto simp: map_eq_Cons_conv)
  then show ?thesis
    by (simp add: average_latency_def or_zero_def truthy_float_def)
qed

text \<open>
  Claim C3. The summary mean of a latency kind should be taken over the turns in which the
  metric is present. The code counts in the denominator only the turns whose value is
  truthy: with speech latencies 0.0 and 4.0 in two completed turns, both present, it
  reports 4.0 where the mean is 2.0; and for a completed turn without speech events it
  divides by zero.
\<close>

theorem get_summary_mean_skips_zero_latency:
  "map vad_latency (all_metrics zero_vad) = [Some 0, Some 4]
   \<and> (case get_summary zero_vad of
         Inl e \<Rightarrow> None
       | Inr sm \<Rightarrow> avg_vad (sm_average_latencies sm)) = Some 4
   \<and> get_summary bare_turn = Inl ZeroDivisionError"
  by (simp add: zero_vad_def bare_turn_def tracer_defs summary_of_tracer_defs)

subsection \<open>Goal Monitor: the judgment call\<close>

lemmas frame_defs =
  process_frame_def goal_check_def goal_judgment_def check_goal_met_def try_detect_def
  build_prompt_def conversation_text_def recent_history_def last10_def entry_line_def
  get_default_def add_to_transcript_def lib0_def decode0_def answers_def
  answers_write_fails_def world0_def OutputTranscriptTracker_init_def check_turns_def Let_def




text \<open>A response that is no JSON at all.\<close>

lemma check_goal_met_unparseable:
  "check_goal_met lib0 (\<lambda>p. Response (Some ''Sorry, I cannot help'')) [] None
   = \<lparr> goal_met = False, confidence = 0,
       gr_reasoning = ''Error during detection: Expecting value: line 1 column 1 (char 0)'' \<rparr>"
  by (simp add: frame_defs)

subsection \<open>Goal Monitor: decision, cadence and marker\<close>

text \<open>What one frame can do: nothing to the outside, a judgment call, or a judgment call
  followed by the marker write.\<close>

lemma process_frame_cases:
  assumes "process_frame lib env fr w = (w1, acts)"
  shows "stop_signal_path (tracker w1) = stop_signal_path (tracker w) \<and>
   ((acts = [] \<and> last_goal_check_turn (tracker w1) = last_goal_check_turn (tracker w)
       \<and> fs w1 = fs w)
  \<or> (\<exists>p. acts = [JudgmentCall p]
        \<and> last_goal_check_turn (tracker w) + 3 \<le> turn_count (tracker w1)
        \<and> fs w1 = fs w
        \<and> (last_goal_check_turn (tracker w1) = turn_count (tracker w1)
            \<or> (write_error env \<noteq> None
                \<and> last_goal_check_turn (tracker w1) = last_goal_check_turn (tracker w))))
  \<or> (\<exists>p path m. acts = [JudgmentCall p, MarkerWritten path m]
        \<and> stop_signal_path (tracker w) = Some path
        \<and> fs w1 = (fs w)(path \<mapsto> StopSignal m) \<and> reason m = ''goal_met''
        \<and> last_goal_check_turn (tracker w1) = turn_count (tracker w1)
        \<and> last_goal_check_turn (tracker w) + 3 \<le> turn_count (tracker w1)))"
  using assms
  by (auto simp: process_frame_def goal_check_def Let_def
           split: frame.splits if_splits option.splits)

lemma run_frames_Cons:
  assumes "process_frame lib env fr w = (w1, acts)"
  shows "fst (run_frames lib ((env, fr) # steps) w) = fst (run_frames lib steps w1)"
    and "snd (run_frames lib ((env, fr) # steps) w)
           = map (\<lambda>a. (turn_count (tracker w1), a)) acts @ snd (run_frames lib steps w1)"
  using assms by (simp_all add: split_beta)



text \<open>Once marked met the goal stays so: in general the mark after a judgment call is the
  mark before or a confident positive judgment.\<close>

lemma goal_met_after_judgment_call:
  assumes "JudgmentCall p \<in> set (snd (process_frame lib env fr w))"
  shows "ot_goal_met (tracker (fst (process_frame lib env fr w)))
         \<longleftrightarrow> ot_goal_met (tracker w)
             \<or> goal_met (goal_judgment lib env (fst (process_frame lib env fr w)))
               \<and> 7 / 10 < confidence (goal_judgment lib env (fst (process_frame lib env fr w)))"
  using assms
  by (auto simp: process_frame_def goal_check_def goal_judgment_def Let_def
           split: frame.splits if_splits option.splits)

text \<open>A confidence of 0.9 is enough.\<close>

lemma goal_met_at_confidence_09:
  "ot_goal_met (tracker (fst (process_frame lib0 (answers ''met 0.9'') (TTSTextFrame ''c'') world2)))"
  by (simp add: world2_def frame_defs)

lemma check_turns_Nil [simp]: "check_turns [] = []"
  by (simp add: check_turns_def)

lemma check_turns_append [simp]: "check_turns (xs @ ys) = check_turns xs @ check_turns ys"
  by (simp add: check_turns_def)

text \<open>
  Claim C5. No judgment call should follow the previous one by fewer than three spoken
  turns. In the run below the check of turn 3 finds the goal met, the marker write raises,
  the handler of line 320 swallows the exception, and the next spoken turn issues a
  judgment call again: calls at turns 3 and 4.
\<close>

theorem judgment_call_repeated_after_failed_write:
  "check_turns (snd failed_write_run) = [3, 4]"
  by (simp add: failed_write_run_def frame_defs)

text \<open>As long as no marker write raises, the calls of a run are at least three turns
  apart, and none comes before three turns have passed since the last recorded check.\<close>

lemma judgment_calls_spaced:
  assumes "\<forall>(env, fr) \<in> set steps. write_error env = None"
  shows "(\<forall>n \<in> set (check_turns (snd (run_frames lib steps w))).
            last_goal_check_turn (tracker w) + 3 \<le> n)
       \<and> sorted_wrt (\<lambda>a b. a + 3 \<le> b) (check_turns (snd (run_frames lib steps w)))"
  using assms
proof (induction steps arbitrary: w)
  case Nil
  then show ?case by simp
next
  case (Cons step steps)
  obtain env fr where step: "step = (env, fr)" by (cases step)
  obtain w1 acts where pf: "process_frame lib env fr w = (w1, acts)"
    by (cases "process_frame lib env fr w")
  note rc = run_frames_Cons [OF pf, of steps]
  have we: "write_error env = None" using Cons.prems step by simp
  have ih: "(\<forall>n \<in> set (check_turns (snd (run_frames lib steps w1))).
               last_goal_check_turn (tracker w1) + 3 \<le> n)
       \<and> sorted_wrt (\<lambda>a b. a + 3 \<le> b) (check_turns (snd (run_frames lib steps w1)))"
    using Cons.IH [of w1] Cons.prems by simp
  from process_frame_cases [OF pf] we
  consider (quiet) "acts = []"
      "last_goal_check_turn (tracker w1) = last_goal_check_turn (tracker w)"
    | (call) "check_turns (map (\<lambda>a. (turn_count (tracker w1), a)) acts) = [turn_count (tracker w1)]"
      "last_goal_check_turn (tracker w1) = turn_count (tracker w1)"
      "last_goal_check_turn (tracker w) + 3 \<le> turn_count (tracker w1)"
    by (auto simp: check_turns_def)
  then show ?case
  proof cases
    case quiet
    then show ?thesis using ih rc step by simp
  next
    case call
    then show ?thesis using ih rc step by (auto simp: sorted_wrt_append)
  qed
qed

lemma markers_append [simp]: "markers (xs @ ys) = markers xs @ markers ys"
  by (induction xs rule: markers.induct) simp_all






subsection \<open>Transcript Merger\<close>


lemmas generate_defs =
  generate_unified_transcript_def falsy_path_def session0_def sibling0_def
  only_bot1_def only_bot2_def source_unavailable_def Let_def





text \<open>With both sources readable and both outputs writable, the merge writes exactly the
  two artifacts the theorems below are about.\<close>

lemma generate_unified_transcript_writes:
  assumes "bot1_transcript_json st = Some p1" "p1 \<noteq> []"
      and "bot2_transcript_json st = Some p2" "p2 \<noteq> []"
      and "unified_transcript_path st = Some u" "u \<noteq> []"
      and "files p1 = Some c1" "load_bot_transcript c1 = Inr b1"
      and "files p2 = Some c2" "load_bot_transcript c2 = Inr b2"
      and "unwritable u = None" "unwritable (sibling u ''simplified_transcript.json'') = None"
  shows "generate_unified_transcript sibling unwritable st files
         = ((True, ''Unified transcript saved to '' @ u @ ''. Simplified transcript saved to ''
                   @ sibling u ''simplified_transcript.json''),
            files(u \<mapsto> UnifiedTranscript (make_unified (simulation_id st) b1 b2),
                  sibling u ''simplified_transcript.json''
                    \<mapsto> SimplifiedTranscript (make_simplified (simulation_id st) b1 b2)))"
  using assms by (simp add: generate_unified_transcript_def falsy_path_def Let_def)



text \<open>The example for any three timestamps \<open>t1 < t2 < t3\<close>.\<close>

lemma merge_example_order:
  assumes "map te_timestamp (bt_entries b1) = [t1, t3]"
      and "map te_timestamp (bt_entries b2) = [t2]"
      and "t1 < t2" and "t2 < t3"
  shows "map ue_timestamp (all_entries b1 b2) = [t1, t2, t3]"
proof -
  obtain e1 e3 where b1: "bt_entries b1 = [e1, e3]" "te_timestamp e1 = t1" "te_timestamp e3 = t3"
    using assms(1) by (auto simp: map_eq_Cons_conv)
  obtain e2 where b2: "bt_entries b2 = [e2]" "te_timestamp e2 = t2"
    using assms(2) by (auto simp: map_eq_Cons_conv)
  have "t1 \<le> t2" "t2 \<le> t3" "\<not> t3 \<le> t2" "t1 \<le> t3"
    using assms(3,4) by auto
  then show ?thesis by (simp add: all_entries_def tag_entries_def b1 b2)
qed




text \<open>With both transcripts present the merge succeeds and writes both artifacts.\<close>

lemma merge_of_both_present:
  "generate_unified_transcript sibling0 Map.empty session0
      [''bot1_Ira_transcript.json'' \<mapsto> BotTranscript ira,
       ''bot2_Chetan_transcript.json'' \<mapsto> BotTranscript chetan]
   = ((True, ''Unified transcript saved to unified_transcript.json. ''
             @ ''Simplified transcript saved to simplified_transcript.json''),
      [''bot1_Ira_transcript.json'' \<mapsto> BotTranscript ira,
       ''bot2_Chetan_transcript.json'' \<mapsto> BotTranscript chetan,
       ''unified_transcript.json''
         \<mapsto> UnifiedTranscript (make_unified ''20260101_100000'' ira chetan),
       ''simplified_transcript.json''
         \<mapsto> SimplifiedTranscript (make_simplified ''20260101_100000'' ira chetan)])"
  by (simp add: generate_defs)

end
